theory Spec2Isabelle
  imports Main "HOL-Library.AList"
begin

section \<open>JavaScript values and errors\<close>

text \<open>
  The values this code handles: what \<^verbatim>\<open>JSON.parse\<close> returns (null, booleans, numbers,
  strings, arrays, objects), \<^verbatim>\<open>undefined\<close>, and host objects of the external libraries
  (principals, buffers, UCAN views, blocks, delegations, connections), which stay opaque:
  \<open>'x\<close> is their type. An object is the list of its own enumerable properties in
  enumeration order, as \<^verbatim>\<open>Object.keys\<close> lists them; its keys are distinct. Numbers are
  never computed with here, only tested for truthiness.
\<close>

datatype 'x val =
    Undefined
  | Null
  | Bool bool
  | Num int
  | Str string
  | Arr "'x val list"
  | Obj "(string \<times> 'x val) list"
  | Ext 'x

text \<open>
  An exception is a value: \<open>TypeError\<close> is what the language itself throws (a property
  read on null or undefined, \<^verbatim>\<open>Object.keys(null)\<close>); \<open>Raised m\<close> is an exception
  thrown by an external function.
\<close>

datatype error = TypeError | Raised string

type_synonym 'a result = "error + 'a"

definition bind :: "'a result \<Rightarrow> ('a \<Rightarrow> 'b result) \<Rightarrow> 'b result" where
  "bind m f = (case m of Inl e \<Rightarrow> Inl e | Inr v \<Rightarrow> f v)"

text \<open>\<^verbatim>\<open>try { m } catch (error) { h }\<close>\<close>

definition try_catch :: "'a result \<Rightarrow> (error \<Rightarrow> 'a result) \<Rightarrow> 'a result" where
  "try_catch m h = (case m of Inl e \<Rightarrow> h e | Inr v \<Rightarrow> Inr v)"

text \<open>The truthiness test of \<^verbatim>\<open>if (v)\<close> and \<^verbatim>\<open>v ? a : b\<close>.\<close>

fun truthy :: "'x val \<Rightarrow> bool" where
  "truthy Undefined = False"
| "truthy Null = False"
| "truthy (Bool b) = b"
| "truthy (Num n) = (n \<noteq> 0)"
| "truthy (Str s) = (s \<noteq> [])"
| "truthy (Arr xs) = True"
| "truthy (Obj kvs) = True"
| "truthy (Ext x) = True"

text \<open>The test of \<^verbatim>\<open>v ?? d\<close> and \<^verbatim>\<open>v?.k\<close>.\<close>

fun nullish :: "'x val \<Rightarrow> bool" where
  "nullish Undefined = True"
| "nullish Null = True"
| "nullish v = False"

text \<open>The decimal rendering of an index, the key of an array element or a string position.\<close>

fun decimal :: "nat \<Rightarrow> string" where
  "decimal n =
     (if n < 10 then [char_of (48 + n)]
      else decimal (n div 10) @ [char_of (48 + n mod 10)])"

declare decimal.simps [simp del]

definition indexed :: "'a list \<Rightarrow> (string \<times> 'a) list" where
  "indexed xs = zip (map decimal [0..<length xs]) xs"

section \<open>The external libraries\<close>

text \<open>
  The functions of \<^verbatim>\<open>@ucanto/principal\<close> (\<^verbatim>\<open>SigningPrincipal\<close>), \<^verbatim>\<open>@ucanto/core\<close>
  (\<^verbatim>\<open>UCAN\<close>, \<^verbatim>\<open>Delegation\<close>) and of the runtime (\<^verbatim>\<open>JSON.parse\<close>,
  \<^verbatim>\<open>Buffer.from(_, 'base64')\<close>) that the settings code calls. None of them is part of this
  repository, so they are parameters. JavaScript passes any value to any function, so each
  takes a \<open>val\<close>; each returns what its interface declares, or throws.
  \<open>host_get x k\<close> reads property \<open>k\<close> of a host object (\<^verbatim>\<open>delegation.root\<close>);
  \<open>host_entries x\<close> is \<^verbatim>\<open>Object.entries\<close> of a host object.
\<close>

record 'x library =
  JSON_parse :: "string \<Rightarrow> 'x val result"
  SigningPrincipal_decode :: "'x val \<Rightarrow> 'x result"
  SigningPrincipal_parse :: "'x val \<Rightarrow> 'x result"
  SigningPrincipal_format :: "'x val \<Rightarrow> string result"
  Buffer_from_base64 :: "'x val \<Rightarrow> 'x result"
  UCAN_parse :: "'x val \<Rightarrow> 'x result"
  UCAN_write :: "'x val \<Rightarrow> 'x result"
  UCAN_format :: "'x val \<Rightarrow> string result"
  Delegation_create :: "'x val \<Rightarrow> 'x result"
  Delegation_import :: "'x val \<Rightarrow> 'x result"
  host_get :: "'x \<Rightarrow> string \<Rightarrow> 'x val"
  host_entries :: "'x \<Rightarrow> (string \<times> 'x val) list"

section \<open>Property access\<close>

text \<open>
  \<^verbatim>\<open>Object.entries(v)\<close>: a \<open>TypeError\<close> on null and undefined, nothing for a boolean or a
  number, the positions of a string, the elements of an array, the properties of an object.
  \<^verbatim>\<open>Object.keys(v)\<close> is the list of the keys of these entries.
\<close>

fun Object_entries :: "'x library \<Rightarrow> 'x val \<Rightarrow> (string \<times> 'x val) list result" where
  "Object_entries L Undefined = Inl TypeError"
| "Object_entries L Null = Inl TypeError"
| "Object_entries L (Bool b) = Inr []"
| "Object_entries L (Num n) = Inr []"
| "Object_entries L (Str s) = Inr (indexed (map (\<lambda>c. Str [c]) s))"
| "Object_entries L (Arr xs) = Inr (indexed xs)"
| "Object_entries L (Obj kvs) = Inr kvs"
| "Object_entries L (Ext x) = Inr (host_entries L x)"

definition Object_keys :: "'x library \<Rightarrow> 'x val \<Rightarrow> string list result" where
  "Object_keys L v = bind (Object_entries L v) (\<lambda>kvs. Inr (map fst kvs))"

text \<open>
  \<^verbatim>\<open>v[k]\<close> and \<^verbatim>\<open>v.k\<close>: a \<open>TypeError\<close> on null and undefined, the library's answer on a host
  object, otherwise the own property \<open>k\<close>, or undefined when there is none. The names this
  code reads (\<^verbatim>\<open>ucan\<close>, \<^verbatim>\<open>alias\<close>, \<^verbatim>\<open>root\<close>, \<^verbatim>\<open>delegations\<close>, and keys that
  \<^verbatim>\<open>Object.keys\<close> has just listed) are not properties of any built-in prototype, so own
  properties are all there is to look at.
\<close>

fun get :: "'x library \<Rightarrow> 'x val \<Rightarrow> string \<Rightarrow> 'x val result" where
  "get L Undefined k = Inl TypeError"
| "get L Null k = Inl TypeError"
| "get L (Ext x) k = Inr (host_get L x k)"
| "get L v k =
     bind (Object_entries L v)
       (\<lambda>kvs. Inr (case map_of kvs k of Some w \<Rightarrow> w | None \<Rightarrow> Undefined))"

text \<open>\<^verbatim>\<open>v?.k\<close>\<close>

definition get_opt :: "'x library \<Rightarrow> 'x val \<Rightarrow> string \<Rightarrow> 'x val result" where
  "get_opt L v k = (if nullish v then Inr Undefined else get L v k)"

text \<open>
  \<^verbatim>\<open>o[k] = v\<close> on a plain object \<open>o\<close>: an existing property keeps its place, a new one
  goes last. Assigning an object to \<^verbatim>\<open>__proto__\<close> replaces the prototype and leaves the
  own properties as they are.
\<close>

definition assign :: "(string \<times> 'x val) list \<Rightarrow> string \<Rightarrow> 'x val \<Rightarrow> (string \<times> 'x val) list" where
  "assign kvs k v = (if k = ''__proto__'' then kvs else AList.update k v kvs)"

section \<open>Settings import and export\<close>

text \<open>
  \<^verbatim>\<open>toPrincipal(secret)\<close>: three nested \<^verbatim>\<open>try\<close> blocks, the innermost \<^verbatim>\<open>catch\<close>
  returning null.
\<close>

definition toPrincipal :: "'x library \<Rightarrow> 'x val \<Rightarrow> 'x val result" where
  "toPrincipal L secret =
     try_catch (bind (SigningPrincipal_decode L secret) (\<lambda>p. Inr (Ext p)))
       (\<lambda>error. try_catch (bind (SigningPrincipal_parse L secret) (\<lambda>p. Inr (Ext p)))
         (\<lambda>error. try_catch
            (bind (Buffer_from_base64 L secret)
               (\<lambda>buff. bind (SigningPrincipal_decode L (Ext buff)) (\<lambda>p. Inr (Ext p))))
            (\<lambda>error. Inr Null)))"

text \<open>
  A \<^verbatim>\<open>Map\<close> with string keys, in insertion order: \<^verbatim>\<open>set\<close> on a key already there
  keeps its place.
\<close>

type_synonym 'x settings = "(string \<times> 'x val) list"

definition Map_has :: "'x settings \<Rightarrow> string \<Rightarrow> bool" where
  "Map_has m k = (k \<in> set (map fst m))"

definition Map_get :: "'x settings \<Rightarrow> string \<Rightarrow> 'x val" where
  "Map_get m k = (case map_of m k of Some v \<Rightarrow> v | None \<Rightarrow> Undefined)"

definition Map_set :: "'x settings \<Rightarrow> string \<Rightarrow> 'x val \<Rightarrow> 'x settings" where
  "Map_set m k v = AList.update k v m"

text \<open>
  The inner loop of \<^verbatim>\<open>importSettings\<close>, over \<^verbatim>\<open>Object.entries(imported.delegations)\<close>;
  \<open>delegations\<close> is the object built so far.
\<close>

fun import_delegations ::
  "'x library \<Rightarrow> (string \<times> 'x val) list \<Rightarrow> (string \<times> 'x val) list \<Rightarrow> (string \<times> 'x val) list result"
where
  "import_delegations L [] delegations = Inr delegations"
| "import_delegations L ((did, del) # rest) delegations =
     bind (get_opt L del ''ucan'') (\<lambda>jwt.
     bind (UCAN_parse L jwt) (\<lambda>ucan.
     bind (UCAN_write L (Ext ucan)) (\<lambda>root.
     bind (Delegation_create L (Obj [(''root'', Ext root)])) (\<lambda>created.
     bind (get L del ''alias'') (\<lambda>alias.
       import_delegations L rest
         (assign delegations did (Obj [(''ucan'', Ext created), (''alias'', alias)])))))))"

text \<open>The loop of \<^verbatim>\<open>importSettings\<close> over \<^verbatim>\<open>Object.keys(imported)\<close>.\<close>

fun import_keys :: "'x library \<Rightarrow> 'x val \<Rightarrow> string list \<Rightarrow> 'x settings \<Rightarrow> 'x settings result" where
  "import_keys L imported [] settings = Inr settings"
| "import_keys L imported (key # keys) settings =
     (if key = ''secret'' \<or> key = ''agent_secret'' \<or> key = ''account_secret'' then
        bind (get L imported key) (\<lambda>secret.
        bind (toPrincipal L secret) (\<lambda>parsed.
          if truthy parsed then
            bind (SigningPrincipal_format L parsed) (\<lambda>formatted.
              import_keys L imported keys (Map_set settings key (Str formatted)))
          else import_keys L imported keys settings))
      else if key = ''delegations'' then
        bind (get L imported ''delegations'') (\<lambda>ds.
        bind (Object_entries L ds) (\<lambda>entries.
        bind (import_delegations L entries []) (\<lambda>delegations.
          import_keys L imported keys (Map_set settings ''delegations'' (Obj delegations)))))
      else
        bind (get L imported key) (\<lambda>v.
          import_keys L imported keys (Map_set settings key v)))"

definition importSettings :: "'x library \<Rightarrow> string \<Rightarrow> 'x settings result" where
  "importSettings L settingsString =
     bind (JSON_parse L settingsString) (\<lambda>imported.
       if truthy imported then
         bind (Object_keys L imported) (\<lambda>keys. import_keys L imported keys [])
       else Inr [])"

text \<open>
  The loop of \<^verbatim>\<open>exportSettings\<close> over \<^verbatim>\<open>Object.entries(settings.get('delegations'))\<close>;
  \<open>out\<close> is \<^verbatim>\<open>output.delegations\<close> so far.
\<close>

fun export_delegations ::
  "'x library \<Rightarrow> (string \<times> 'x val) list \<Rightarrow> (string \<times> 'x val) list \<Rightarrow> (string \<times> 'x val) list result"
where
  "export_delegations L [] out = Inr out"
| "export_delegations L ((did, del) # rest) out =
     bind (get_opt L del ''ucan'') (\<lambda>ucan.
     bind (get_opt L ucan ''root'') (\<lambda>root.
     bind (Delegation_import L (Arr [root])) (\<lambda>imported.
     bind (UCAN_format L (Ext imported)) (\<lambda>formatted.
     bind (get L del ''alias'') (\<lambda>alias.
       export_delegations L rest
         (assign out did (Obj [(''ucan'', Str formatted), (''alias'', alias)])))))))"

definition export_secret :: "'x library \<Rightarrow> 'x settings \<Rightarrow> (string \<times> 'x val) list result" where
  "export_secret L settings =
     (if Map_has settings ''secret'' then
        bind (SigningPrincipal_format L (Map_get settings ''secret'')) (\<lambda>formatted.
          Inr (assign [] ''secret'' (Str formatted)))
      else Inr [])"

text \<open>
  The two blocks for \<^verbatim>\<open>agent_secret\<close> and \<^verbatim>\<open>account_secret\<close> are the same code but for
  the key.
\<close>

definition export_parsed ::
  "'x library \<Rightarrow> 'x settings \<Rightarrow> string \<Rightarrow> (string \<times> 'x val) list \<Rightarrow> (string \<times> 'x val) list result"
where
  "export_parsed L settings key output =
     (if Map_has settings key then
        bind (SigningPrincipal_parse L (Map_get settings key)) (\<lambda>parsed.
        bind (SigningPrincipal_format L (Ext parsed)) (\<lambda>formatted.
          Inr (assign output key (Str formatted))))
      else Inr output)"

definition exportSettings :: "'x library \<Rightarrow> 'x settings \<Rightarrow> 'x val result" where
  "exportSettings L settings =
     bind (export_secret L settings) (\<lambda>output1.
     bind (export_parsed L settings ''agent_secret'' output1) (\<lambda>output2.
     bind (export_parsed L settings ''account_secret'' output2) (\<lambda>output3.
       if Map_has settings ''delegations'' then
         bind (Object_entries L (Map_get settings ''delegations'')) (\<lambda>entries.
         bind (export_delegations L entries []) (\<lambda>delegations.
           Inr (Obj (assign output3 ''delegations'' (Obj delegations)))))
       else Inr (Obj output3))))"

section \<open>The client\<close>

text \<open>
  Modelled from the spec: the classes \<^verbatim>\<open>Space\<close> (\<^verbatim>\<open>./space.js\<close>) and \<^verbatim>\<open>Delegation\<close>
  (\<^verbatim>\<open>./delegation.js\<close>) are not among the sources. A space carries the DID and the
  metadata it is constructed from, a delegation its root, its blocks and its metadata.
\<close>

datatype 'x space = Space (space_did: string) (space_meta: "'x val")

datatype 'x delegation =
  Delegation (delegation_root: "'x val") (delegation_blocks: "'x val") (delegation_meta: "'x val")

text \<open>
  Modelled from the spec: the ability names \<^verbatim>\<open>StoreCapabilities.add.can\<close> and
  \<^verbatim>\<open>UploadCapabilities.add.can\<close> of \<^verbatim>\<open>@web3-storage/capabilities\<close>, which is not among
  the sources, are \<^verbatim>\<open>store/add\<close> and \<^verbatim>\<open>upload/add\<close>.
\<close>

definition StoreCapabilities_add_can :: string where
  "StoreCapabilities_add_can = ''store/add''"

definition UploadCapabilities_add_can :: string where
  "UploadCapabilities_add_can = ''upload/add''"

text \<open>
  The fields of \<^verbatim>\<open>Base\<close> that the methods read: \<^verbatim>\<open>this._agent\<close>, whose state \<open>'a\<close>
  belongs to \<^verbatim>\<open>@web3-storage/access\<close>, and \<^verbatim>\<open>this._serviceConf.upload\<close>.
\<close>

record ('x, 'a) client =
  client_agent :: 'a
  serviceConf_upload :: "'x val"

text \<open>
  \<^verbatim>\<open>uploadFile\<close> and \<^verbatim>\<open>uploadDirectory\<close> assign to a property of the options object they
  are given, so that object lives in a store: a reference is an index into the list of the
  objects allocated so far, and an object is the list of its properties.
\<close>

type_synonym 'x heap = "(string \<times> 'x val) list list"

text \<open>
  What the client calls: \<^verbatim>\<open>_invocationConfig\<close> of \<^verbatim>\<open>Base\<close> (\<^verbatim>\<open>./base.js\<close>, not among the
  sources), \<^verbatim>\<open>uploadFile\<close> and \<^verbatim>\<open>uploadDirectory\<close> of \<^verbatim>\<open>@web3-storage/upload-client\<close>,
  which are given the configuration, the data and the reference to the options, and the
  agent of \<^verbatim>\<open>@web3-storage/access\<close>. A method that changes the agent returns its new state.
  \<^verbatim>\<open>agent.currentSpace()\<close> is a DID or undefined, \<^verbatim>\<open>agent.spaces\<close> a \<^verbatim>\<open>Map\<close> from DID to
  metadata in insertion order, \<^verbatim>\<open>agent.createSpace\<close> returns a DID and metadata,
  \<^verbatim>\<open>agent.delegate\<close> a root and blocks, \<^verbatim>\<open>agent.delegationsWithMeta\<close> yields roots, blocks
  and metadata.
\<close>

record ('x, 'a) services =
  invocationConfig :: "('x, 'a) client \<Rightarrow> string list \<Rightarrow> 'x val result"
  upload_client_uploadFile :: "'x heap \<Rightarrow> 'x val \<Rightarrow> 'x val \<Rightarrow> nat \<Rightarrow> 'x val result"
  upload_client_uploadDirectory :: "'x heap \<Rightarrow> 'x val \<Rightarrow> 'x val \<Rightarrow> nat \<Rightarrow> 'x val result"
  Agent_issuer :: "'a \<Rightarrow> 'x val"
  Agent_currentSpace :: "'a \<Rightarrow> string option"
  Agent_spaces :: "'a \<Rightarrow> (string \<times> 'x val) list"
  Agent_setCurrentSpace :: "'a \<Rightarrow> string \<Rightarrow> 'a result"
  Agent_createSpace :: "'a \<Rightarrow> 'x val \<Rightarrow> ('a \<times> string \<times> 'x val) result"
  Agent_registerSpace :: "'a \<Rightarrow> 'x val \<Rightarrow> 'x val \<Rightarrow> 'a result"
  Agent_importSpaceFromDelegation :: "'a \<Rightarrow> 'x val \<Rightarrow> ('a \<times> 'x val) result"
  Agent_proofs :: "'a \<Rightarrow> 'x val \<Rightarrow> 'x val result"
  Agent_addProof :: "'a \<Rightarrow> 'x val \<Rightarrow> ('a \<times> 'x val) result"
  Agent_delegationsWithMeta :: "'a \<Rightarrow> 'x val \<Rightarrow> ('x val \<times> 'x val \<times> 'x val) list result"
  Agent_delegate :: "'a \<Rightarrow> 'x val \<Rightarrow> ('a \<times> 'x val \<times> 'x val) result"

text \<open>The calls an upload makes, in order, with their arguments.\<close>

datatype 'x call =
    InvocationConfig "string list"
  | UploadFile "'x val" "'x val" nat "'x heap"
  | UploadDirectory "'x val" "'x val" nat "'x heap"

record 'x outcome =
  heap_after :: "'x heap"
  calls :: "'x call list"
  returned :: "'x val result"

text \<open>
  The default \<^verbatim>\<open>options = {}\<close>: an omitted argument is a fresh empty object, a given one
  is the caller's.
\<close>

definition default_options :: "'x heap \<Rightarrow> nat option \<Rightarrow> 'x heap \<times> nat" where
  "default_options h options =
     (case options of None \<Rightarrow> (h @ [[]], length h) | Some r \<Rightarrow> (h, r))"

subsection \<open>The first copy of the class in \<^verbatim>\<open>src/client.js\<close>\<close>

definition uploadFile ::
  "('x, 'a) services \<Rightarrow> ('x, 'a) client \<Rightarrow> 'x heap \<Rightarrow> 'x val \<Rightarrow> nat option \<Rightarrow> 'x outcome"
where
  "uploadFile E this h file options =
     (let (h0, r) = default_options h options;
          caps = [StoreCapabilities_add_can, UploadCapabilities_add_can]
      in case invocationConfig E this caps of
           Inl e \<Rightarrow> \<lparr>heap_after = h0, calls = [InvocationConfig caps], returned = Inl e\<rparr>
         | Inr conf \<Rightarrow>
             (let h1 = h0[r := assign (h0 ! r) ''connection'' (serviceConf_upload this)]
              in \<lparr>heap_after = h1,
                  calls = [InvocationConfig caps, UploadFile conf file r h1],
                  returned = upload_client_uploadFile E h1 conf file r\<rparr>))"

definition uploadDirectory ::
  "('x, 'a) services \<Rightarrow> ('x, 'a) client \<Rightarrow> 'x heap \<Rightarrow> 'x val \<Rightarrow> nat option \<Rightarrow> 'x outcome"
where
  "uploadDirectory E this h files options =
     (let (h0, r) = default_options h options;
          caps = [StoreCapabilities_add_can, UploadCapabilities_add_can]
      in case invocationConfig E this caps of
           Inl e \<Rightarrow> \<lparr>heap_after = h0, calls = [InvocationConfig caps], returned = Inl e\<rparr>
         | Inr conf \<Rightarrow>
             (let h1 = h0[r := assign (h0 ! r) ''connection'' (serviceConf_upload this)]
              in \<lparr>heap_after = h1,
                  calls = [InvocationConfig caps, UploadDirectory conf files r h1],
                  returned = upload_client_uploadDirectory E h1 conf files r\<rparr>))"

definition agent :: "('x, 'a) services \<Rightarrow> ('x, 'a) client \<Rightarrow> 'x val" where
  "agent E this = Agent_issuer E (client_agent this)"

text \<open>\<^verbatim>\<open>did ? new Space(did, this._agent.spaces.get(did)) : undefined\<close>; \<open>None\<close> is undefined.\<close>

definition currentSpace :: "('x, 'a) services \<Rightarrow> ('x, 'a) client \<Rightarrow> 'x space option" where
  "currentSpace E this =
     (case Agent_currentSpace E (client_agent this) of
        None \<Rightarrow> None
      | Some did \<Rightarrow>
          if truthy (Str did :: 'x val)
          then Some (Space did (Map_get (Agent_spaces E (client_agent this)) did))
          else None)"

definition setCurrentSpace ::
  "('x, 'a) services \<Rightarrow> ('x, 'a) client \<Rightarrow> string \<Rightarrow> ('x, 'a) client result"
where
  "setCurrentSpace E this did =
     bind (Agent_setCurrentSpace E (client_agent this) did)
       (\<lambda>a. Inr (this\<lparr>client_agent := a\<rparr>))"

definition spaces :: "('x, 'a) services \<Rightarrow> ('x, 'a) client \<Rightarrow> 'x space list" where
  "spaces E this = map (\<lambda>(did, meta). Space did meta) (Agent_spaces E (client_agent this))"

definition createSpace ::
  "('x, 'a) services \<Rightarrow> ('x, 'a) client \<Rightarrow> 'x val \<Rightarrow> (('x, 'a) client \<times> 'x space option) result"
where
  "createSpace E this name =
     bind (Agent_createSpace E (client_agent this) name)
       (\<lambda>(a, did, meta). Inr (this\<lparr>client_agent := a\<rparr>, Some (Space did meta)))"

definition registerSpace ::
  "('x, 'a) services \<Rightarrow> ('x, 'a) client \<Rightarrow> 'x val \<Rightarrow> 'x val \<Rightarrow> ('x, 'a) client result"
where
  "registerSpace E this email options =
     bind (Agent_registerSpace E (client_agent this) email options)
       (\<lambda>a. Inr (this\<lparr>client_agent := a\<rparr>))"

definition addSpace ::
  "('x, 'a) services \<Rightarrow> ('x, 'a) client \<Rightarrow> 'x val \<Rightarrow> (('x, 'a) client \<times> 'x val) result"
where
  "addSpace E this proof =
     bind (Agent_importSpaceFromDelegation E (client_agent this) proof)
       (\<lambda>(a, v). Inr (this\<lparr>client_agent := a\<rparr>, v))"

definition proofs :: "('x, 'a) services \<Rightarrow> ('x, 'a) client \<Rightarrow> 'x val \<Rightarrow> 'x val result" where
  "proofs E this caps = Agent_proofs E (client_agent this) caps"

definition addProof ::
  "('x, 'a) services \<Rightarrow> ('x, 'a) client \<Rightarrow> 'x val \<Rightarrow> (('x, 'a) client \<times> 'x val) result"
where
  "addProof E this proof =
     bind (Agent_addProof E (client_agent this) proof)
       (\<lambda>(a, v). Inr (this\<lparr>client_agent := a\<rparr>, v))"

definition delegations ::
  "('x, 'a) services \<Rightarrow> ('x, 'a) client \<Rightarrow> 'x val \<Rightarrow> 'x delegation list result"
where
  "delegations E this caps =
     bind (Agent_delegationsWithMeta E (client_agent this) caps)
       (\<lambda>items. Inr (map (\<lambda>(root, blocks, meta). Delegation root blocks meta) items))"

text \<open>
  \<^verbatim>\<open>{ ...options, abilities, audience, audienceMeta }\<close>: the properties of the options,
  then the three named ones, each replacing a property of that name.
\<close>

definition delegate_options ::
  "(string \<times> 'x val) list \<Rightarrow> 'x val \<Rightarrow> 'x val \<Rightarrow> 'x val \<Rightarrow> (string \<times> 'x val) list"
where
  "delegate_options options abilities audience audienceMeta =
     assign (assign (assign options ''abilities'' abilities) ''audience'' audience)
       ''audienceMeta'' audienceMeta"

definition createDelegation ::
  "('x, 'a) services \<Rightarrow> ('x, 'a) client \<Rightarrow> 'x val \<Rightarrow> 'x val \<Rightarrow> (string \<times> 'x val) list option \<Rightarrow>
     (('x, 'a) client \<times> 'x delegation) result"
where
  "createDelegation E this audience abilities options_arg =
     (let options = (case options_arg of None \<Rightarrow> [] | Some given \<Rightarrow> given);
          audienceMeta =
            (if nullish (Map_get options ''audienceMeta'')
             then Obj [(''name'', Str ''agent''), (''type'', Str ''device'')]
             else Map_get options ''audienceMeta'')
      in bind (Agent_delegate E (client_agent this)
                 (Obj (delegate_options options abilities audience audienceMeta)))
           (\<lambda>(a, root, blocks).
              Inr (this\<lparr>client_agent := a\<rparr>,
                   Delegation root blocks (Obj [(''audience'', audienceMeta)]))))"

subsection \<open>The second copy of the class in \<^verbatim>\<open>src/client.js\<close>\<close>

text \<open>
  The file holds the class twice. The second copy differs in \<^verbatim>\<open>createSpace\<close>, which
  returns nothing, and in the default metadata of \<^verbatim>\<open>createDelegation\<close>; it adds a static
  \<^verbatim>\<open>create\<close>, which has no counterpart in the first and is left out.
\<close>

definition uploadFile_2 ::
  "('x, 'a) services \<Rightarrow> ('x, 'a) client \<Rightarrow> 'x heap \<Rightarrow> 'x val \<Rightarrow> nat option \<Rightarrow> 'x outcome"
where
  "uploadFile_2 E this h file options =
     (let (h0, r) = default_options h options;
          caps = [StoreCapabilities_add_can, UploadCapabilities_add_can]
      in case invocationConfig E this caps of
           Inl e \<Rightarrow> \<lparr>heap_after = h0, calls = [InvocationConfig caps], returned = Inl e\<rparr>
         | Inr conf \<Rightarrow>
             (let h1 = h0[r := assign (h0 ! r) ''connection'' (serviceConf_upload this)]
              in \<lparr>heap_after = h1,
                  calls = [InvocationConfig caps, UploadFile conf file r h1],
                  returned = upload_client_uploadFile E h1 conf file r\<rparr>))"

definition uploadDirectory_2 ::
  "('x, 'a) services \<Rightarrow> ('x, 'a) client \<Rightarrow> 'x heap \<Rightarrow> 'x val \<Rightarrow> nat option \<Rightarrow> 'x outcome"
where
  "uploadDirectory_2 E this h files options =
     (let (h0, r) = default_options h options;
          caps = [StoreCapabilities_add_can, UploadCapabilities_add_can]
      in case invocationConfig E this caps of
           Inl e \<Rightarrow> \<lparr>heap_after = h0, calls = [InvocationConfig caps], returned = Inl e\<rparr>
         | Inr conf \<Rightarrow>
             (let h1 = h0[r := assign (h0 ! r) ''connection'' (serviceConf_upload this)]
              in \<lparr>heap_after = h1,
                  calls = [InvocationConfig caps, UploadDirectory conf files r h1],
                  returned = upload_client_uploadDirectory E h1 conf files r\<rparr>))"

definition agent_2 :: "('x, 'a) services \<Rightarrow> ('x, 'a) client \<Rightarrow> 'x val" where
  "agent_2 E this = Agent_issuer E (client_agent this)"

definition currentSpace_2 :: "('x, 'a) services \<Rightarrow> ('x, 'a) client \<Rightarrow> 'x space option" where
  "currentSpace_2 E this =
     (case Agent_currentSpace E (client_agent this) of
        None \<Rightarrow> None
      | Some did \<Rightarrow>
          if truthy (Str did :: 'x val)
          then Some (Space did (Map_get (Agent_spaces E (client_agent this)) did))
          else None)"

definition setCurrentSpace_2 ::
  "('x, 'a) services \<Rightarrow> ('x, 'a) client \<Rightarrow> string \<Rightarrow> ('x, 'a) client result"
where
  "setCurrentSpace_2 E this did =
     bind (Agent_setCurrentSpace E (client_agent this) did)
       (\<lambda>a. Inr (this\<lparr>client_agent := a\<rparr>))"

definition spaces_2 :: "('x, 'a) services \<Rightarrow> ('x, 'a) client \<Rightarrow> 'x space list" where
  "spaces_2 E this = map (\<lambda>(did, meta). Space did meta) (Agent_spaces E (client_agent this))"

text \<open>\<^verbatim>\<open>await this._agent.createSpace(name)\<close> and no \<^verbatim>\<open>return\<close>: the result is undefined.\<close>

definition createSpace_2 ::
  "('x, 'a) services \<Rightarrow> ('x, 'a) client \<Rightarrow> 'x val \<Rightarrow> (('x, 'a) client \<times> 'x space option) result"
where
  "createSpace_2 E this name =
     bind (Agent_createSpace E (client_agent this) name)
       (\<lambda>(a, did, meta). Inr (this\<lparr>client_agent := a\<rparr>, None))"

definition registerSpace_2 ::
  "('x, 'a) services \<Rightarrow> ('x, 'a) client \<Rightarrow> 'x val \<Rightarrow> 'x val \<Rightarrow> ('x, 'a) client result"
where
  "registerSpace_2 E this email options =
     bind (Agent_registerSpace E (client_agent this) email options)
       (\<lambda>a. Inr (this\<lparr>client_agent := a\<rparr>))"

definition addSpace_2 ::
  "('x, 'a) services \<Rightarrow> ('x, 'a) client \<Rightarrow> 'x val \<Rightarrow> (('x, 'a) client \<times> 'x val) result"
where
  "addSpace_2 E this proof =
     bind (Agent_importSpaceFromDelegation E (client_agent this) proof)
       (\<lambda>(a, v). Inr (this\<lparr>client_agent := a\<rparr>, v))"

definition proofs_2 :: "('x, 'a) services \<Rightarrow> ('x, 'a) client \<Rightarrow> 'x val \<Rightarrow> 'x val result" where
  "proofs_2 E this caps = Agent_proofs E (client_agent this) caps"

definition addProof_2 ::
  "('x, 'a) services \<Rightarrow> ('x, 'a) client \<Rightarrow> 'x val \<Rightarrow> (('x, 'a) client \<times> 'x val) result"
where
  "addProof_2 E this proof =
     bind (Agent_addProof E (client_agent this) proof)
       (\<lambda>(a, v). Inr (this\<lparr>client_agent := a\<rparr>, v))"

definition delegations_2 ::
  "('x, 'a) services \<Rightarrow> ('x, 'a) client \<Rightarrow> 'x val \<Rightarrow> 'x delegation list result"
where
  "delegations_2 E this caps =
     bind (Agent_delegationsWithMeta E (client_agent this) caps)
       (\<lambda>items. Inr (map (\<lambda>(root, blocks, meta). Delegation root blocks meta) items))"

definition createDelegation_2 ::
  "('x, 'a) services \<Rightarrow> ('x, 'a) client \<Rightarrow> 'x val \<Rightarrow> 'x val \<Rightarrow> (string \<times> 'x val) list option \<Rightarrow>
     (('x, 'a) client \<times> 'x delegation) result"
where
  "createDelegation_2 E this audience abilities options_arg =
     (let options = (case options_arg of None \<Rightarrow> [] | Some given \<Rightarrow> given);
          audienceMeta =
            (if nullish (Map_get options ''audienceMeta'')
             then Obj [(''name'', Str []), (''type'', Str ''device'')]
             else Map_get options ''audienceMeta'')
      in bind (Agent_delegate E (client_agent this)
                 (Obj (delegate_options options abilities audience audienceMeta)))
           (\<lambda>(a, d_root, d_blocks).
              Inr (this\<lparr>client_agent := a\<rparr>,
                   Delegation d_root d_blocks (Obj [(''audience'', audienceMeta)]))))"

section \<open>Notions used in the statements\<close>






section \<open>A small instance of the external libraries\<close>

text \<open>
  To run the definitions on concrete inputs the parameters need values. This instance
  follows the shape of the real libraries: a key is four characters; \<open>decode\<close> accepts a
  buffer of that length and nothing else; \<open>format\<close> writes a key as the letter M followed
  by its characters (the multibase prefix of base64pad) and rejects whatever is not a key;
  \<open>parse\<close> reads that format back; the base64 decoding of a string is taken to be its
  characters. A UCAN token is a non-empty string, its block and its delegation carry the
  token, and a delegation has the property \<^verbatim>\<open>root\<close>.
\<close>

datatype host =
    Key string
  | Buffer string
  | View string
  | Block string
  | Token string
  | Connection string
  | Link string

fun demo_decode :: "host val \<Rightarrow> host result" where
  "demo_decode (Ext (Buffer b)) =
     (if length b = 4 then Inr (Key b) else Inl (Raised ''Expected 4 bytes''))"
| "demo_decode v = Inl (Raised ''Expected a byte array'')"

fun demo_parse :: "host val \<Rightarrow> host result" where
  "demo_parse (Str (c # b)) =
     (if c = CHR ''M'' \<and> length b = 4 then Inr (Key b) else Inl (Raised ''Unable to decode''))"
| "demo_parse v = Inl (Raised ''Can only decode a string'')"

fun demo_format :: "host val \<Rightarrow> string result" where
  "demo_format (Ext (Key b)) =
     (if length b = 4 then Inr (CHR ''M'' # b) else Inl (Raised ''Expected 4 bytes''))"
| "demo_format v = Inl (Raised ''Unknown type, must be binary type'')"

fun demo_Buffer_from :: "host val \<Rightarrow> host result" where
  "demo_Buffer_from (Str s) = Inr (Buffer s)"
| "demo_Buffer_from v = Inl TypeError"

fun demo_UCAN_parse :: "host val \<Rightarrow> host result" where
  "demo_UCAN_parse (Str t) = (if t \<noteq> [] then Inr (View t) else Inl (Raised ''Cannot parse UCAN''))"
| "demo_UCAN_parse v = Inl (Raised ''Cannot parse UCAN'')"

fun demo_UCAN_write :: "host val \<Rightarrow> host result" where
  "demo_UCAN_write (Ext (View t)) = Inr (Block t)"
| "demo_UCAN_write v = Inl (Raised ''Cannot encode UCAN'')"

fun demo_UCAN_format :: "host val \<Rightarrow> string result" where
  "demo_UCAN_format (Ext (Token t)) = Inr t"
| "demo_UCAN_format (Ext (View t)) = Inr t"
| "demo_UCAN_format v = Inl (Raised ''Cannot format UCAN'')"

fun demo_Delegation_create :: "host val \<Rightarrow> host result" where
  "demo_Delegation_create (Obj kvs) =
     (case map_of kvs ''root'' of
        Some (Ext (Block t)) \<Rightarrow> Inr (Token t)
      | _ \<Rightarrow> Inl (Raised ''Expected a root block''))"
| "demo_Delegation_create v = Inl TypeError"

fun demo_Delegation_import :: "host val \<Rightarrow> host result" where
  "demo_Delegation_import (Arr [Ext (Block t)]) = Inr (Token t)"
| "demo_Delegation_import v = Inl (Raised ''Expected a root block'')"

fun demo_host_get :: "host \<Rightarrow> string \<Rightarrow> host val" where
  "demo_host_get (Token t) k = (if k = ''root'' then Ext (Block t) else Undefined)"
| "demo_host_get x k = Undefined"

text \<open>The settings documents used below, with what \<^verbatim>\<open>JSON.parse\<close> returns for each.\<close>

definition demo_documents :: "(string \<times> host val) list" where
  \<open>demo_documents =
     [(''{"agent_secret":"Mabcd","account_secret":"Mwxyz","delegations":{"did:key:alice":{"ucan":"eyJ0","alias":"laptop"}}}'',
       Obj [(''agent_secret'', Str ''Mabcd''), (''account_secret'', Str ''Mwxyz''),
            (''delegations'',
               Obj [(''did:key:alice'', Obj [(''ucan'', Str ''eyJ0''), (''alias'', Str ''laptop'')])])]),
      (''{"agent_secret":"abcd","account_secret":"Mwxyz"}'',
       Obj [(''agent_secret'', Str ''abcd''), (''account_secret'', Str ''Mwxyz'')]),
      (''{"secret":"Mabcd"}'', Obj [(''secret'', Str ''Mabcd'')]),
      (''{"secret":"bad","delegations":null}'',
       Obj [(''secret'', Str ''bad''), (''delegations'', Null)]),
      (''{"secret":"bad","agent_secret":"Mabcd","email":"a@b.c","delegations":{"did:key:alice":{"ucan":"eyJ0","alias":"laptop"}}}'',
       Obj [(''secret'', Str ''bad''), (''agent_secret'', Str ''Mabcd''),
            (''email'', Str ''a@b.c''),
            (''delegations'',
               Obj [(''did:key:alice'', Obj [(''ucan'', Str ''eyJ0''), (''alias'', Str ''laptop'')])])])]\<close>

definition demo_JSON_parse :: "string \<Rightarrow> host val result" where
  "demo_JSON_parse s =
     (case map_of demo_documents s of
        Some v \<Rightarrow> Inr v
      | None \<Rightarrow> Inl (Raised ''Unexpected token''))"

definition demo_library :: "host library" where
  "demo_library =
     \<lparr>JSON_parse = demo_JSON_parse,
      SigningPrincipal_decode = demo_decode,
      SigningPrincipal_parse = demo_parse,
      SigningPrincipal_format = demo_format,
      Buffer_from_base64 = demo_Buffer_from,
      UCAN_parse = demo_UCAN_parse,
      UCAN_write = demo_UCAN_write,
      UCAN_format = demo_UCAN_format,
      Delegation_create = demo_Delegation_create,
      Delegation_import = demo_Delegation_import,
      host_get = demo_host_get,
      host_entries = (\<lambda>x. [])\<rparr>"

text \<open>
  An agent whose state is its spaces and its current space, and services that answer with
  fixed values: the configuration names the current space and fails when there is none.
\<close>

type_synonym demo_agent = "(string \<times> host val) list \<times> string option"

definition demo_services :: "(host, demo_agent) services" where
  "demo_services =
     \<lparr>invocationConfig =
        (\<lambda>this caps. case snd (client_agent this) of
           None \<Rightarrow> Inl (Raised ''missing current space'')
         | Some did \<Rightarrow> Inr (Obj [(''with'', Str did), (''can'', Arr (map Str caps))])),
      upload_client_uploadFile = (\<lambda>h conf file r. Inr (Ext (Link ''bafyfile''))),
      upload_client_uploadDirectory = (\<lambda>h conf files r. Inr (Ext (Link ''bafydir''))),
      Agent_issuer = (\<lambda>a. Ext (Key ''abcd'')),
      Agent_currentSpace = snd,
      Agent_spaces = fst,
      Agent_setCurrentSpace = (\<lambda>a did. Inr (fst a, Some did)),
      Agent_createSpace =
        (\<lambda>a name. Inr ((fst a @ [(''did:key:new'', Obj [(''name'', name)])], snd a),
                        ''did:key:new'', Obj [(''name'', name)])),
      Agent_registerSpace = (\<lambda>a email options. Inr a),
      Agent_importSpaceFromDelegation = (\<lambda>a proof. Inr (a, Undefined)),
      Agent_proofs = (\<lambda>a caps. Inr (Arr [])),
      Agent_addProof = (\<lambda>a proof. Inr (a, proof)),
      Agent_delegationsWithMeta = (\<lambda>a caps. Inr []),
      Agent_delegate = (\<lambda>a options. Inr (a, Ext (Block ''root''), Arr []))\<rparr>"

definition demo_client :: "(host, demo_agent) client" where
  "demo_client =
     \<lparr>client_agent =
        ([(''did:key:home'', Obj [(''name'', Str ''home'')]), (''did:key:work'', Undefined)],
         Some ''did:key:home''),
      serviceConf_upload = Ext (Connection ''upload'')\<rparr>"

text \<open>A fresh client: no space yet, so no current space.\<close>

definition demo_fresh_client :: "(host, demo_agent) client" where
  "demo_fresh_client =
     \<lparr>client_agent = ([], None), serviceConf_upload = Ext (Connection ''upload'')\<rparr>"

section \<open>Converting a stored secret\<close>

lemma toPrincipal_cases:
  "toPrincipal L secret =
     (case SigningPrincipal_decode L secret of
        Inr p \<Rightarrow> Inr (Ext p)
      | Inl e1 \<Rightarrow>
          (case SigningPrincipal_parse L secret of
             Inr p \<Rightarrow> Inr (Ext p)
           | Inl e2 \<Rightarrow>
               (case Buffer_from_base64 L secret of
                  Inl e3 \<Rightarrow> Inr Null
                | Inr buff \<Rightarrow>
                    (case SigningPrincipal_decode L (Ext buff) of
                       Inr p \<Rightarrow> Inr (Ext p)
                     | Inl e4 \<Rightarrow> Inr Null))))"
  by (simp add: toPrincipal_def try_catch_def bind_def split: sum.splits)

text \<open>
  C9. \<^verbatim>\<open>toPrincipal\<close> never throws: on every input it returns a value. It returns the
  principal of \<^verbatim>\<open>decode(secret)\<close> when that succeeds; otherwise that of
  \<^verbatim>\<open>parse(secret)\<close> when that succeeds; otherwise that of \<^verbatim>\<open>decode\<close> applied to the
  base64 buffer of the secret when both steps succeed; and it returns null exactly when
  all three attempts fail (the third fails when either the buffer or its decoding does).
\<close>

theorem toPrincipal_first_success:
  "(\<exists>v. toPrincipal L secret = Inr v) \<and>
   (\<forall>p. SigningPrincipal_decode L secret = Inr p \<longrightarrow> toPrincipal L secret = Inr (Ext p)) \<and>
   (\<forall>e p. SigningPrincipal_decode L secret = Inl e \<and> SigningPrincipal_parse L secret = Inr p \<longrightarrow>
      toPrincipal L secret = Inr (Ext p)) \<and>
   (\<forall>e1 e2 buff p.
      SigningPrincipal_decode L secret = Inl e1 \<and> SigningPrincipal_parse L secret = Inl e2 \<and>
      Buffer_from_base64 L secret = Inr buff \<and> SigningPrincipal_decode L (Ext buff) = Inr p \<longrightarrow>
      toPrincipal L secret = Inr (Ext p)) \<and>
   (toPrincipal L secret = Inr Null \<longleftrightarrow>
      isl (SigningPrincipal_decode L secret) \<and> isl (SigningPrincipal_parse L secret) \<and>
      (case Buffer_from_base64 L secret of
         Inl e \<Rightarrow> True
       | Inr buff \<Rightarrow> isl (SigningPrincipal_decode L (Ext buff))))"
  by (auto simp add: toPrincipal_cases split: sum.splits)

text \<open>
  In the instance, a legacy secret is converted by the third attempt after the first two
  have failed, and a number by none.
\<close>

theorem toPrincipal_first_success_witness:
  "SigningPrincipal_decode demo_library (Str ''abcd'') = Inl (Raised ''Expected a byte array'') \<and>
   SigningPrincipal_parse demo_library (Str ''abcd'') = Inl (Raised ''Unable to decode'') \<and>
   Buffer_from_base64 demo_library (Str ''abcd'') = Inr (Buffer ''abcd'') \<and>
   SigningPrincipal_decode demo_library (Ext (Buffer ''abcd'')) = Inr (Key ''abcd'') \<and>
   toPrincipal demo_library (Str ''abcd'') = Inr (Ext (Key ''abcd'')) \<and>
   isl (SigningPrincipal_decode demo_library (Num 5)) \<and>
   isl (SigningPrincipal_parse demo_library (Num 5)) \<and>
   isl (Buffer_from_base64 demo_library (Num 5)) \<and>
   toPrincipal demo_library (Num 5) = Inr Null"
proof -
  have a: "SigningPrincipal_decode demo_library (Str ''abcd'') = Inl (Raised ''Expected a byte array'')"
    and b: "SigningPrincipal_parse demo_library (Str ''abcd'') = Inl (Raised ''Unable to decode'')"
    and c: "Buffer_from_base64 demo_library (Str ''abcd'') = Inr (Buffer ''abcd'')"
    and d: "SigningPrincipal_decode demo_library (Ext (Buffer ''abcd'')) = Inr (Key ''abcd'')"
    by (simp_all add: demo_library_def)
  have e: "isl (SigningPrincipal_decode demo_library (Num 5))"
    and f: "isl (SigningPrincipal_parse demo_library (Num 5))"
    and g: "isl (Buffer_from_base64 demo_library (Num 5))"
    by (simp_all add: demo_library_def)
  from g obtain err where g': "Buffer_from_base64 demo_library (Num 5) = Inl err"
    by (cases "Buffer_from_base64 demo_library (Num 5)") simp_all
  have "toPrincipal demo_library (Str ''abcd'') = Inr (Ext (Key ''abcd''))"
    using toPrincipal_first_success [of demo_library "Str ''abcd''"] a b c d by blast
  moreover have "toPrincipal demo_library (Num 5) = Inr Null"
    using toPrincipal_first_success [of demo_library "Num 5"] e f g' by simp
  ultimately show ?thesis using a b c d e f g by simp
qed

section \<open>Spaces\<close>

text \<open>
  C7. \<^verbatim>\<open>spaces()\<close> returns one space per entry of the agent's map of spaces, in the
  order of the map: the DIDs of the spaces returned are the keys of the map and their
  metadata are its values, position by position.
\<close>

theorem spaces_one_per_entry:
  "map space_did (spaces E this) = map fst (Agent_spaces E (client_agent this)) \<and>
   map space_meta (spaces E this) = map snd (Agent_spaces E (client_agent this))"
  by (simp add: spaces_def case_prod_unfold comp_def)

text \<open>
  C10. A DID is never the empty string. When the agent's current space, if set, is a DID,
  \<^verbatim>\<open>currentSpace()\<close> is undefined exactly when the agent has no current space, and
  otherwise it is the space with that DID and with what the agent's map of spaces holds
  for it.
\<close>

theorem currentSpace_undefined_iff:
  "Agent_currentSpace E (client_agent this) \<noteq> Some [] \<Longrightarrow>
   (currentSpace E this = None \<longleftrightarrow> Agent_currentSpace E (client_agent this) = None) \<and>
   (\<forall>did. Agent_currentSpace E (client_agent this) = Some did \<longrightarrow>
      currentSpace E this =
        Some (Space did (Map_get (Agent_spaces E (client_agent this)) did)))"
  by (auto simp add: currentSpace_def split: option.splits)

theorem currentSpace_undefined_iff_witness:
  "Agent_currentSpace demo_services (client_agent demo_client) = Some ''did:key:home'' \<and>
   Map_get (Agent_spaces demo_services (client_agent demo_client)) ''did:key:home'' =
     Obj [(''name'', Str ''home'')] \<and>
   currentSpace demo_services demo_client =
     Some (Space ''did:key:home'' (Obj [(''name'', Str ''home'')]))"
proof -
  have cur: "Agent_currentSpace demo_services (client_agent demo_client) = Some ''did:key:home''"
    by (simp add: demo_services_def demo_client_def)
  have ok: "Agent_currentSpace demo_services (client_agent demo_client) \<noteq> Some []"
    by (simp add: cur)
  have m: "Map_get (Agent_spaces demo_services (client_agent demo_client)) ''did:key:home'' =
      Obj [(''name'', Str ''home'')]"
    by (simp add: demo_services_def demo_client_def Map_get_def)
  show ?thesis
    using currentSpace_undefined_iff [OF ok] cur m by simp
qed

section \<open>Uploads\<close>

lemma map_of_assign:
  "k \<noteq> ''__proto__'' \<Longrightarrow> map_of (assign kvs k v) k' = (if k' = k then Some v else map_of kvs k')"
  by (simp add: assign_def update_conv')

text \<open>
  C6. On every path \<^verbatim>\<open>uploadFile\<close> and \<^verbatim>\<open>uploadDirectory\<close> first request the invocation
  configuration, once, for the two abilities \<^verbatim>\<open>store/add\<close> and \<^verbatim>\<open>upload/add\<close> in this
  order. When the request yields a configuration, they make one call to \<^verbatim>\<open>uploadFile\<close>,
  respectively \<^verbatim>\<open>uploadDirectory\<close>, of the upload client, passing that configuration, the
  data and the options with the connection set, and they return what this call returns.
  When the request throws, they throw the same error and call nothing else.
\<close>

theorem upload_requests_config_then_delegates:
  "h0 = fst (default_options h options) \<Longrightarrow>
   r = snd (default_options h options) \<Longrightarrow>
   h1 = h0[r := assign (h0 ! r) ''connection'' (serviceConf_upload this)] \<Longrightarrow>
   calls (uploadFile E this h file options) =
     (case invocationConfig E this [''store/add'', ''upload/add''] of
        Inl e \<Rightarrow> [InvocationConfig [''store/add'', ''upload/add'']]
      | Inr conf \<Rightarrow>
          [InvocationConfig [''store/add'', ''upload/add''], UploadFile conf file r h1]) \<and>
   returned (uploadFile E this h file options) =
     (case invocationConfig E this [''store/add'', ''upload/add''] of
        Inl e \<Rightarrow> Inl e
      | Inr conf \<Rightarrow> upload_client_uploadFile E h1 conf file r) \<and>
   calls (uploadDirectory E this h files options) =
     (case invocationConfig E this [''store/add'', ''upload/add''] of
        Inl e \<Rightarrow> [InvocationConfig [''store/add'', ''upload/add'']]
      | Inr conf \<Rightarrow>
          [InvocationConfig [''store/add'', ''upload/add''], UploadDirectory conf files r h1]) \<and>
   returned (uploadDirectory E this h files options) =
     (case invocationConfig E this [''store/add'', ''upload/add''] of
        Inl e \<Rightarrow> Inl e
      | Inr conf \<Rightarrow> upload_client_uploadDirectory E h1 conf files r)"
  by (simp add: uploadFile_def uploadDirectory_def StoreCapabilities_add_can_def
      UploadCapabilities_add_can_def Let_def case_prod_unfold split: sum.splits)

text \<open>
  In the instance: a client with a current space uploads, and a fresh client, which has
  none, gets the error of the configuration request after that one request.
\<close>

theorem upload_requests_config_then_delegates_witness:
  "calls (uploadFile demo_services demo_client [[(''retries'', Num 3)]] (Str ''data'') (Some 0)) =
     [InvocationConfig [''store/add'', ''upload/add''],
      UploadFile (Obj [(''with'', Str ''did:key:home''), (''can'', Arr [Str ''store/add'', Str ''upload/add''])])
        (Str ''data'') 0
        [[(''retries'', Num 3), (''connection'', Ext (Connection ''upload''))]]] \<and>
   returned (uploadFile demo_services demo_client [[(''retries'', Num 3)]] (Str ''data'') (Some 0)) =
     Inr (Ext (Link ''bafyfile'')) \<and>
   returned (uploadDirectory demo_services demo_client [[(''retries'', Num 3)]] (Arr [Str ''data'']) None) =
     Inr (Ext (Link ''bafydir'')) \<and>
   calls (uploadFile demo_services demo_fresh_client [[(''retries'', Num 3)]] (Str ''data'') (Some 0)) =
     [InvocationConfig [''store/add'', ''upload/add'']] \<and>
   returned (uploadFile demo_services demo_fresh_client [[(''retries'', Num 3)]] (Str ''data'') (Some 0)) =
     Inl (Raised ''missing current space'') \<and>
   calls (uploadDirectory demo_services demo_fresh_client [[(''retries'', Num 3)]] (Arr [Str ''data'']) (Some 0)) =
     [InvocationConfig [''store/add'', ''upload/add'']] \<and>
   returned (uploadDirectory demo_services demo_fresh_client [[(''retries'', Num 3)]] (Arr [Str ''data'']) (Some 0)) =
     Inl (Raised ''missing current space'')"
proof -
  let ?conf = "Obj [(''with'', Str ''did:key:home''), (''can'', Arr [Str ''store/add'', Str ''upload/add''])] :: host val"
  let ?h = "[[(''retries'', Num 3 :: host val)]]"
  have c: "invocationConfig demo_services demo_client [''store/add'', ''upload/add''] = Inr ?conf"
    by (simp add: demo_services_def demo_client_def)
  have n: "invocationConfig demo_services demo_fresh_client [''store/add'', ''upload/add''] =
      Inl (Raised ''missing current space'')"
    by (simp add: demo_services_def demo_fresh_client_def)
  have s: "serviceConf_upload demo_client = Ext (Connection ''upload'')"
    by (simp add: demo_client_def)
  have u: "\<And>h conf file r. upload_client_uploadFile demo_services h conf file r = Inr (Ext (Link ''bafyfile''))"
    by (simp add: demo_services_def)
  have d: "\<And>h conf file r. upload_client_uploadDirectory demo_services h conf file r = Inr (Ext (Link ''bafydir''))"
    by (simp add: demo_services_def)
  have o: "default_options ?h (Some 0) = (?h, 0)"
    by (simp add: default_options_def)
  show ?thesis
    using upload_requests_config_then_delegates
        [OF refl refl refl, of demo_services demo_client ?h "Str ''data''" "Some 0" "Arr [Str ''data'']"]
      upload_requests_config_then_delegates
        [OF refl refl refl, of demo_services demo_client ?h "Str ''data''" None "Arr [Str ''data'']"]
      upload_requests_config_then_delegates
        [OF refl refl refl, of demo_services demo_fresh_client ?h "Str ''data''" "Some 0" "Arr [Str ''data'']"]
    by (simp add: c n s u d o assign_def)
qed

text \<open>
  C8. \<^verbatim>\<open>uploadFile\<close> and \<^verbatim>\<open>uploadDirectory\<close> change the options object of the caller, and
  nothing else. Given a reference \<open>r\<close> to it: when the configuration request yields a
  configuration, the store they leave, which is also the store the upload client is called
  in with the same reference, differs from the caller's in the object at \<open>r\<close> only; there
  the property \<^verbatim>\<open>connection\<close> is the upload connection of the client, whatever it was, and
  every other property is what it was. When the request throws, the assignment is not
  reached and the store is left as it was. With no options given, the objects of the
  caller are all left as they were, and the connection goes into a fresh object.
\<close>

theorem upload_overwrites_connection:
  "r < length h \<Longrightarrow>
   h1 = h[r := assign (h ! r) ''connection'' (serviceConf_upload this)] \<Longrightarrow>
   heap_after (uploadFile E this h file (Some r)) =
     (case invocationConfig E this [''store/add'', ''upload/add''] of
        Inl e \<Rightarrow> h | Inr conf \<Rightarrow> h1) \<and>
   heap_after (uploadDirectory E this h files (Some r)) =
     (case invocationConfig E this [''store/add'', ''upload/add''] of
        Inl e \<Rightarrow> h | Inr conf \<Rightarrow> h1) \<and>
   calls (uploadFile E this h file (Some r)) =
     (case invocationConfig E this [''store/add'', ''upload/add''] of
        Inl e \<Rightarrow> [InvocationConfig [''store/add'', ''upload/add'']]
      | Inr conf \<Rightarrow>
          [InvocationConfig [''store/add'', ''upload/add''], UploadFile conf file r h1]) \<and>
   calls (uploadDirectory E this h files (Some r)) =
     (case invocationConfig E this [''store/add'', ''upload/add''] of
        Inl e \<Rightarrow> [InvocationConfig [''store/add'', ''upload/add'']]
      | Inr conf \<Rightarrow>
          [InvocationConfig [''store/add'', ''upload/add''], UploadDirectory conf files r h1]) \<and>
   length h1 = length h \<and>
   map_of (h1 ! r) ''connection'' = Some (serviceConf_upload this) \<and>
   (\<forall>k. k \<noteq> ''connection'' \<longrightarrow> map_of (h1 ! r) k = map_of (h ! r) k) \<and>
   (\<forall>i < length h. i \<noteq> r \<longrightarrow> h1 ! i = h ! i) \<and>
   heap_after (uploadFile E this h file None) =
     (case invocationConfig E this [''store/add'', ''upload/add''] of
        Inl e \<Rightarrow> h @ [[]]
      | Inr conf \<Rightarrow> h @ [[(''connection'', serviceConf_upload this)]]) \<and>
   heap_after (uploadDirectory E this h files None) =
     (case invocationConfig E this [''store/add'', ''upload/add''] of
        Inl e \<Rightarrow> h @ [[]]
      | Inr conf \<Rightarrow> h @ [[(''connection'', serviceConf_upload this)]])"
  by (simp add: uploadFile_def uploadDirectory_def default_options_def
      StoreCapabilities_add_can_def UploadCapabilities_add_can_def Let_def
      assign_def update_conv' split: sum.splits)

theorem upload_overwrites_connection_witness:
  "(1::nat) < length [[(''x'', Null :: host val)],
                [(''connection'', Ext (Connection ''other'')), (''retries'', Num 3)]] \<and>
   heap_after (uploadFile demo_services demo_client
       [[(''x'', Null)], [(''connection'', Ext (Connection ''other'')), (''retries'', Num 3)]]
       (Str ''data'') (Some 1)) =
     [[(''x'', Null)], [(''connection'', Ext (Connection ''upload'')), (''retries'', Num 3)]] \<and>
   heap_after (uploadDirectory demo_services demo_client
       [[(''x'', Null)], [(''connection'', Ext (Connection ''other'')), (''retries'', Num 3)]]
       (Arr [Str ''data'']) (Some 1)) =
     [[(''x'', Null)], [(''connection'', Ext (Connection ''upload'')), (''retries'', Num 3)]] \<and>
   heap_after (uploadFile demo_services demo_fresh_client
       [[(''x'', Null)], [(''connection'', Ext (Connection ''other'')), (''retries'', Num 3)]]
       (Str ''data'') (Some 1)) =
     [[(''x'', Null)], [(''connection'', Ext (Connection ''other'')), (''retries'', Num 3)]] \<and>
   heap_after (uploadDirectory demo_services demo_fresh_client
       [[(''x'', Null)], [(''connection'', Ext (Connection ''other'')), (''retries'', Num 3)]]
       (Arr [Str ''data'']) (Some 1)) =
     [[(''x'', Null)], [(''connection'', Ext (Connection ''other'')), (''retries'', Num 3)]]"
proof -
  let ?conf = "Obj [(''with'', Str ''did:key:home''), (''can'', Arr [Str ''store/add'', Str ''upload/add''])] :: host val"
  let ?h = "[[(''x'', Null :: host val)], [(''connection'', Ext (Connection ''other'')), (''retries'', Num 3)]]"
  have c: "invocationConfig demo_services demo_client [''store/add'', ''upload/add''] = Inr ?conf"
    by (simp add: demo_services_def demo_client_def)
  have n: "invocationConfig demo_services demo_fresh_client [''store/add'', ''upload/add''] =
      Inl (Raised ''missing current space'')"
    by (simp add: demo_services_def demo_fresh_client_def)
  have l: "(1::nat) < length ?h"
    by simp
  have s: "serviceConf_upload demo_client = Ext (Connection ''upload'')"
    by (simp add: demo_client_def)
  show ?thesis
    using upload_overwrites_connection
        [OF l refl, of demo_services demo_client "Str ''data''" "Arr [Str ''data'']"]
      upload_overwrites_connection
        [OF l refl, of demo_services demo_fresh_client "Str ''data''" "Arr [Str ''data'']"]
    by (simp add: c n s assign_def)
qed

section \<open>Delegations\<close>

lemma map_of_delegate_options:
  "map_of (delegate_options options abilities audience audienceMeta) k =
     (if k = ''audienceMeta'' then Some audienceMeta
      else if k = ''audience'' then Some audience
      else if k = ''abilities'' then Some abilities
      else map_of options k)"
  by (simp add: delegate_options_def map_of_assign)

text \<open>
  C3. In both copies of the class, \<^verbatim>\<open>createDelegation\<close> calls the agent's \<^verbatim>\<open>delegate\<close>
  with an object whose \<^verbatim>\<open>audience\<close> is the principal passed (also when the options hold
  an audience of their own), whose \<^verbatim>\<open>abilities\<close> are the abilities passed, and whose other
  properties are those of the options; it returns the delegation made of the root and the
  blocks this call produces, with the metadata \<^verbatim>\<open>{ audience: audienceMeta }\<close>, where
  \<^verbatim>\<open>audienceMeta\<close> is \<^verbatim>\<open>options.audienceMeta\<close> when that is supplied (neither undefined nor
  null) and the default of the copy otherwise.
\<close>

theorem createDelegation_returns_delegation:
  "options = (case options_arg of None \<Rightarrow> [] | Some given \<Rightarrow> given) \<Longrightarrow>
   supplied = Map_get options ''audienceMeta'' \<Longrightarrow>
   meta = (if nullish supplied then Obj [(''name'', Str ''agent''), (''type'', Str ''device'')]
           else supplied) \<Longrightarrow>
   meta_2 = (if nullish supplied then Obj [(''name'', Str []), (''type'', Str ''device'')]
             else supplied) \<Longrightarrow>
   arg = delegate_options options abilities audience meta \<Longrightarrow>
   arg_2 = delegate_options options abilities audience meta_2 \<Longrightarrow>
   createDelegation E this audience abilities options_arg =
     (case Agent_delegate E (client_agent this) (Obj arg) of
        Inl e \<Rightarrow> Inl e
      | Inr (a, root, blocks) \<Rightarrow>
          Inr (this\<lparr>client_agent := a\<rparr>, Delegation root blocks (Obj [(''audience'', meta)]))) \<and>
   createDelegation_2 E this audience abilities options_arg =
     (case Agent_delegate E (client_agent this) (Obj arg_2) of
        Inl e \<Rightarrow> Inl e
      | Inr (a, root, blocks) \<Rightarrow>
          Inr (this\<lparr>client_agent := a\<rparr>, Delegation root blocks (Obj [(''audience'', meta_2)]))) \<and>
   map_of arg ''audience'' = Some audience \<and> map_of arg_2 ''audience'' = Some audience \<and>
   map_of arg ''abilities'' = Some abilities \<and> map_of arg_2 ''abilities'' = Some abilities \<and>
   map_of arg ''audienceMeta'' = Some meta \<and> map_of arg_2 ''audienceMeta'' = Some meta_2 \<and>
   (\<forall>k. k \<notin> {''abilities'', ''audience'', ''audienceMeta''} \<longrightarrow>
      map_of arg k = map_of options k \<and> map_of arg_2 k = map_of options k) \<and>
   (\<not> nullish supplied \<longrightarrow> meta = supplied \<and> meta_2 = supplied)"
  by (simp add: createDelegation_def createDelegation_2_def map_of_delegate_options bind_def
      Let_def split: sum.splits prod.splits)

theorem createDelegation_returns_delegation_witness:
  "\<not> nullish (Map_get [(''audienceMeta'', Obj [(''name'', Str ''laptop'')] :: host val),
                        (''audience'', Ext (Key ''abcd'')), (''expiration'', Num 5)] ''audienceMeta'') \<and>
   createDelegation demo_services demo_client (Ext (Key ''wxyz'')) (Arr [Str ''store/add''])
     (Some [(''audienceMeta'', Obj [(''name'', Str ''laptop'')]),
            (''audience'', Ext (Key ''abcd'')), (''expiration'', Num 5)]) =
     Inr (demo_client,
          Delegation (Ext (Block ''root'')) (Arr []) (Obj [(''audience'', Obj [(''name'', Str ''laptop'')])])) \<and>
   map_of (delegate_options [(''audienceMeta'', Obj [(''name'', Str ''laptop'')] :: host val),
                        (''audience'', Ext (Key ''abcd'')), (''expiration'', Num 5)]
            (Arr [Str ''store/add'']) (Ext (Key ''wxyz'')) (Obj [(''name'', Str ''laptop'')]))
     ''audience'' = Some (Ext (Key ''wxyz''))"
proof -
  let ?options = "[(''audienceMeta'', Obj [(''name'', Str ''laptop'')] :: host val),
                   (''audience'', Ext (Key ''abcd'')), (''expiration'', Num 5)]"
  have s: "Map_get ?options ''audienceMeta'' = Obj [(''name'', Str ''laptop'')]"
    by (simp add: Map_get_def)
  have d: "\<And>a v. Agent_delegate demo_services a v = Inr (a, Ext (Block ''root''), Arr [])"
    by (simp add: demo_services_def)
  have c: "demo_client\<lparr>client_agent := client_agent demo_client\<rparr> = demo_client"
    by simp
  show ?thesis
    using createDelegation_returns_delegation
      [of ?options "Some ?options" "Obj [(''name'', Str ''laptop'')]" _ _ _
         "Arr [Str ''store/add'']" "Ext (Key ''wxyz'')" _ demo_services demo_client, OF _ _ refl refl refl refl]
    by (simp add: s d c)
qed

section \<open>The two copies of the class\<close>

text \<open>
  C2, as stated, fails: the two copies do not return equal results. After the same call to
  the agent, \<^verbatim>\<open>createSpace\<close> of the first copy returns the space created and that of the
  second returns undefined; and with no \<^verbatim>\<open>audienceMeta\<close> in the options the two
  \<^verbatim>\<open>createDelegation\<close> record different metadata (the name \<^verbatim>\<open>agent\<close> in the first, the
  empty name in the second).
\<close>

theorem client_copies_differ:
  "createSpace demo_services demo_client (Str ''home'') \<noteq>
     createSpace_2 demo_services demo_client (Str ''home'') \<and>
   createDelegation demo_services demo_client (Ext (Key ''wxyz'')) (Arr [Str ''store/add'']) None \<noteq>
     createDelegation_2 demo_services demo_client (Ext (Key ''wxyz'')) (Arr [Str ''store/add'']) None"
  by (simp add: createSpace_def createSpace_2_def createDelegation_def createDelegation_2_def
      bind_def demo_services_def Map_get_def)

text \<open>
  C2, amended. The two copies return equal results, and leave the client equal, for
  \<^verbatim>\<open>uploadFile\<close>, \<^verbatim>\<open>uploadDirectory\<close>, \<^verbatim>\<open>agent\<close>, \<^verbatim>\<open>currentSpace\<close>, \<^verbatim>\<open>setCurrentSpace\<close>,
  \<^verbatim>\<open>spaces\<close>, \<^verbatim>\<open>registerSpace\<close>, \<^verbatim>\<open>addSpace\<close>, \<^verbatim>\<open>proofs\<close>, \<^verbatim>\<open>addProof\<close> and
  \<^verbatim>\<open>delegations\<close>, and for \<^verbatim>\<open>createDelegation\<close> whenever the options supply
  \<^verbatim>\<open>audienceMeta\<close>. \<^verbatim>\<open>createSpace\<close> of the second copy makes the call of the first, fails
  when it fails and leaves the client as it does, but returns undefined.
\<close>

theorem client_copies_agree:
  "uploadFile_2 E this h file upload_options = uploadFile E this h file upload_options \<and>
   uploadDirectory_2 E this h file upload_options = uploadDirectory E this h file upload_options \<and>
   agent_2 E this = agent E this \<and>
   currentSpace_2 E this = currentSpace E this \<and>
   setCurrentSpace_2 E this did = setCurrentSpace E this did \<and>
   spaces_2 E this = spaces E this \<and>
   registerSpace_2 E this email register_options = registerSpace E this email register_options \<and>
   addSpace_2 E this prf = addSpace E this prf \<and>
   proofs_2 E this caps = proofs E this caps \<and>
   addProof_2 E this prf = addProof E this prf \<and>
   delegations_2 E this caps = delegations E this caps \<and>
   (\<forall>options. options_arg = Some options \<and> \<not> nullish (Map_get options ''audienceMeta'') \<longrightarrow>
      createDelegation_2 E this audience abilities options_arg =
        createDelegation E this audience abilities options_arg) \<and>
   createSpace_2 E this name =
     bind (createSpace E this name) (\<lambda>(this', created). Inr (this', None))"
  by (simp add: uploadFile_def uploadFile_2_def uploadDirectory_def uploadDirectory_2_def
      agent_def agent_2_def currentSpace_def currentSpace_2_def setCurrentSpace_def
      setCurrentSpace_2_def spaces_def spaces_2_def registerSpace_def registerSpace_2_def
      addSpace_def addSpace_2_def proofs_def proofs_2_def addProof_def addProof_2_def
      delegations_def delegations_2_def createDelegation_def createDelegation_2_def
      createSpace_def createSpace_2_def bind_def split: sum.splits)

theorem client_copies_agree_witness:
  "\<not> nullish (Map_get [(''audienceMeta'', Obj [(''name'', Str ''laptop'')] :: host val)] ''audienceMeta'') \<and>
   createDelegation_2 demo_services demo_client (Ext (Key ''wxyz'')) (Arr [Str ''store/add''])
     (Some [(''audienceMeta'', Obj [(''name'', Str ''laptop'')])]) =
   createDelegation demo_services demo_client (Ext (Key ''wxyz'')) (Arr [Str ''store/add''])
     (Some [(''audienceMeta'', Obj [(''name'', Str ''laptop'')])])"
proof -
  have s: "\<not> nullish (Map_get [(''audienceMeta'', Obj [(''name'', Str ''laptop'')] :: host val)] ''audienceMeta'')"
    by (simp add: Map_get_def)
  show ?thesis
    using client_copies_agree [of demo_services demo_client _ _ _ _ _ _ _ _
        "Some [(''audienceMeta'', Obj [(''name'', Str ''laptop'')])]"] s
    by blast
qed

section \<open>Importing settings\<close>


lemma bind_Inr [simp]: "bind (Inr x) f = f x"
  by (simp add: bind_def)

lemma bind_Inl [simp]: "bind (Inl e) f = Inl e"
  by (simp add: bind_def)
























section \<open>Exporting imported settings\<close>






















text \<open>
  The entry \<^verbatim>\<open>secret\<close> is exported otherwise than the two other secrets:
  \<^verbatim>\<open>exportSettings\<close> hands the stored value to \<^verbatim>\<open>SigningPrincipal.format\<close> without
  parsing it first, and what \<^verbatim>\<open>importSettings\<close> has stored is a string, not a principal.
  With a library that formats principals only, the export of an imported \<^verbatim>\<open>secret\<close>
  throws.
\<close>

lemma exportSettings_formats_stored_secret_unparsed:
  \<open>importSettings demo_library ''{"secret":"Mabcd"}'' = Inr [(''secret'', Str ''Mabcd'')] \<and>
   exportSettings demo_library [(''secret'', Str ''Mabcd'')] =
     Inl (Raised ''Unknown type, must be binary type'')\<close>
  by (simp add: importSettings_def exportSettings_def export_secret_def export_parsed_def
      Object_keys_def toPrincipal_cases Map_set_def Map_has_def Map_get_def assign_def
      demo_library_def demo_JSON_parse_def demo_documents_def)

end
